theory Spec2Isabelle
  imports Main "HOL-Library.Word"
begin

unbundle bit_operations_syntax

section \<open>Interrupt descriptor table (kernel/idt.h, kernel/idt.c)\<close>

subsection \<open>Constants of kernel/idt.h\<close>

text \<open>
  The macros and enumerators are C \<open>int\<close> constants; they are kept as 32-bit words and
  narrowed (\<open>ucast\<close>) where the source stores them in a narrower field or passes them
  as a narrower argument.
\<close>

definition P_BIT :: "32 word" where
  "P_BIT = push_bit 7 1"

definition DPL_NONE :: "32 word" where
  "DPL_NONE = 0"

definition IDT_GATE_32BIT_INT :: "32 word" where
  "IDT_GATE_32BIT_INT = 0xE"

definition PIC_MASTER_CMD :: "32 word" where
  "PIC_MASTER_CMD = 0x20"

definition PIC_MASTER_DATA :: "32 word" where
  "PIC_MASTER_DATA = 0x21"

definition PIC_SLAVE_CMD :: "32 word" where
  "PIC_SLAVE_CMD = 0xA0"

definition PIC_SLAVE_DATA :: "32 word" where
  "PIC_SLAVE_DATA = 0xA1"

definition ICW1_ICW4 :: "32 word" where
  "ICW1_ICW4 = 0x01"

definition ICW1_SINGLE :: "32 word" where
  "ICW1_SINGLE = 0x02"

definition ICW1_INIT :: "32 word" where
  "ICW1_INIT = 0x10"

definition ICW4_8086 :: "32 word" where
  "ICW4_8086 = 0x01"

definition IDT_SZ :: nat where
  "IDT_SZ = 256"

subsection \<open>Data\<close>

text \<open>The packed struct \<open>idt_entry\<close>, field by field in declaration order.\<close>

record idt_entry =
  offset_l :: "16 word"
  selector :: "16 word"
  zero_byte :: "8 word"
  type_byte :: "8 word"
  offset_h :: "16 word"

text \<open>\<open>sizeof(idt_entry)\<close>: the struct is packed, 2 + 2 + 1 + 1 + 2 bytes.\<close>

definition sizeof_idt_entry :: nat where
  "sizeof_idt_entry = 2 + 2 + 1 + 1 + 2"

text \<open>The struct \<open>idt_descriptor\<close>; \<open>base\<close> is a pointer, kept as a 32-bit address.\<close>

record idt_descriptor =
  limit :: "16 word"
  base :: "32 word"

text \<open>
  Addresses fixed at link time that \<open>idt_init\<close> takes with \<open>&\<close>: the entry points
  \<open>exc_0\<close> .. \<open>exc_30\<close>, \<open>irq_pit\<close>, \<open>irq_kb\<close>, \<open>irq_default_master\<close>,
  \<open>irq_default_slave\<close> of idt.asm, and the table \<open>idt\<close> itself. They are parameters
  of the model.
\<close>

record symbols =
  exc :: "nat \<Rightarrow> 32 word"
  irq_pit :: "32 word"
  irq_kb :: "32 word"
  irq_default_master :: "32 word"
  irq_default_slave :: "32 word"
  idt_addr :: "32 word"

text \<open>
  The effects whose order matters, in the order the program performs them: a store to
  an element of \<open>idt\<close>, a byte written to an I/O port, the \<open>lidt\<close> instruction with
  the descriptor it reads, and \<open>sti\<close>.
\<close>

datatype event =
  IdtWrite "16 word" idt_entry
| PortWrite "16 word" "8 word"
| Lidt idt_descriptor
| Sti

text \<open>
  The state the translation unit touches: the globals \<open>idt\<close> and \<open>descriptor\<close>, the
  CPU's table register and interrupt flag, and the history of effects (\<open>trace\<close>, a
  history variable: it records the order of effects and is not read by the program).
\<close>

record kstate =
  idt :: "idt_entry list"
  descriptor :: idt_descriptor
  idtr :: "idt_descriptor option"
  iflag :: bool
  trace :: "event list"

text \<open>A halted kernel: the panic message and the state at the moment of the halt.\<close>

datatype panic = Panic string kstate

definition idt_entry_zero :: idt_entry where
  "idt_entry_zero =
     \<lparr>offset_l = 0, selector = 0, zero_byte = 0, type_byte = 0, offset_h = 0\<rparr>"

text \<open>
  The state at entry of \<open>idt_init\<close> on a fresh boot: \<open>idt[IDT_SZ] = { 0 }\<close>, the
  descriptor in zeroed storage, no table loaded, interrupts off, nothing done yet.
\<close>

definition boot_state :: kstate where
  "boot_state =
     \<lparr>idt = replicate IDT_SZ idt_entry_zero,
      descriptor = \<lparr>limit = 0, base = 0\<rparr>,
      idtr = None, iflag = False, trace = []\<rparr>"

subsection \<open>Helpers declared outside the translation unit\<close>

text \<open>
  Modelled from the spec: \<open>panic_line\<close> comes from kernel/exceptions.h, which is not
  among the sources. The spec (4.1, 7) calls an out-of-range index a fatal configuration
  error that is non-recoverable and halts initialization, so \<open>panic_line\<close> does not
  return: the run ends with the message, in the state it was called in.
\<close>

definition panic_line :: "string \<Rightarrow> kstate \<Rightarrow> panic + kstate" where
  "panic_line msg s = Inl (Panic msg s)"

text \<open>
  Modelled from the spec: \<open>io_outb\<close> comes from kernel/io.h, which is not among the
  sources. The spec (6) describes the controller protocol as ordered byte writes to
  fixed port addresses: \<open>io_outb(port, val)\<close> writes the byte \<open>val\<close> to \<open>port\<close>.
\<close>

definition io_outb :: "16 word \<Rightarrow> 8 word \<Rightarrow> kstate \<Rightarrow> kstate" where
  "io_outb port val s = s\<lparr>trace := trace s @ [PortWrite port val]\<rparr>"

text \<open>
  \<open>idt_load\<close> is defined in idt.asm; kernel/idt.h documents it: it loads the idt
  descriptor its argument points to with the \<open>lidt\<close> instruction. The only caller
  passes \<open>&descriptor\<close>.
\<close>

definition idt_load :: "kstate \<Rightarrow> kstate" where
  "idt_load s = s\<lparr>idtr := Some (descriptor s), trace := trace s @ [Lidt (descriptor s)]\<rparr>"

text \<open>\<open>asm("sti")\<close>: enable interrupts.\<close>

definition sti :: "kstate \<Rightarrow> kstate" where
  "sti s = s\<lparr>iflag := True, trace := trace s @ [Sti]\<rparr>"

subsection \<open>register\_isr\<close>

definition register_isr :: "16 word \<Rightarrow> 32 word \<Rightarrow> kstate \<Rightarrow> panic + kstate" where
  "register_isr idx func s =
     (if unat idx \<ge> IDT_SZ then panic_line ''Idx out of bounds when registering ISR.'' s
      else
        let e = \<lparr>offset_l = ucast (func AND 0xFFFF),
                 selector = 0x8,
                 zero_byte = 0,
                 type_byte = ucast (P_BIT OR DPL_NONE OR IDT_GATE_32BIT_INT),
                 offset_h = ucast (drop_bit 16 func AND 0xFFFF)\<rparr>
        in Inr (s\<lparr>idt := (idt s)[unat idx := e], trace := trace s @ [IdtWrite idx e]\<rparr>))"

subsection \<open>pic\_remap\<close>

definition pic_remap :: "kstate \<Rightarrow> kstate" where
  "pic_remap s0 =
     (let s1 = io_outb (ucast PIC_MASTER_CMD) (ucast (ICW1_INIT OR ICW1_ICW4)) s0;
          s2 = io_outb (ucast PIC_SLAVE_CMD) (ucast (ICW1_INIT OR ICW1_ICW4)) s1;
          s3 = io_outb (ucast PIC_MASTER_DATA) 32 s2;
          s4 = io_outb (ucast PIC_SLAVE_DATA) 40 s3;
          s5 = io_outb (ucast PIC_MASTER_DATA) 4 s4;
          s6 = io_outb (ucast PIC_SLAVE_DATA) 2 s5;
          s7 = io_outb (ucast PIC_MASTER_DATA) (ucast ICW4_8086) s6;
          s8 = io_outb (ucast PIC_SLAVE_DATA) (ucast ICW4_8086) s7;
          s9 = io_outb (ucast PIC_MASTER_DATA) 0 s8
      in io_outb (ucast PIC_SLAVE_DATA) 0 s9)"

subsection \<open>idt\_init\<close>

text \<open>
  \<open>for (int i = lo; i < hi; i++) register_isr(i, func);\<close> The counter is a C
  \<open>int\<close> (it stays below 48 here, far from overflow) and is narrowed to the
  \<open>uint16_t\<close> parameter at each call. A panic ends the loop.
\<close>

function register_loop :: "int \<Rightarrow> int \<Rightarrow> 32 word \<Rightarrow> kstate \<Rightarrow> panic + kstate" where
  "register_loop i hi func s =
     (if i < hi then
        (case register_isr (word_of_int i) func s of
           Inl p \<Rightarrow> Inl p
         | Inr s' \<Rightarrow> register_loop (i + 1) hi func s')
      else Inr s)"
  by pat_completeness auto
termination
  by (relation "measure (\<lambda>(i, hi, func, s). nat (hi - i))") auto

declare register_loop.simps [simp del]

text \<open>A statement that cannot panic.\<close>

definition ok :: "(kstate \<Rightarrow> kstate) \<Rightarrow> kstate \<Rightarrow> panic + kstate" where
  "ok f s = Inr (f s)"

text \<open>Statements in sequence; a panic halts and skips what follows.\<close>

fun run_seq :: "(kstate \<Rightarrow> panic + kstate) list \<Rightarrow> kstate \<Rightarrow> panic + kstate" where
  "run_seq [] s = Inr s"
| "run_seq (f # fs) s = (case f s of Inl p \<Rightarrow> Inl p | Inr s' \<Rightarrow> run_seq fs s')"

definition idt_init :: "symbols \<Rightarrow> kstate \<Rightarrow> panic + kstate" where
  "idt_init h =
     run_seq
      [ok (\<lambda>s. s\<lparr>descriptor := (descriptor s)\<lparr>limit := of_nat (IDT_SZ * sizeof_idt_entry - 1)\<rparr>\<rparr>),
       ok (\<lambda>s. s\<lparr>descriptor := (descriptor s)\<lparr>base := idt_addr h\<rparr>\<rparr>),
       ok pic_remap,
       register_isr 0 (exc h 0),
       register_isr 1 (exc h 1),
       register_isr 2 (exc h 2),
       register_isr 3 (exc h 3),
       register_isr 4 (exc h 4),
       register_isr 5 (exc h 5),
       register_isr 6 (exc h 6),
       register_isr 7 (exc h 7),
       register_isr 8 (exc h 8),
       register_isr 10 (exc h 10),
       register_isr 11 (exc h 11),
       register_isr 12 (exc h 12),
       register_isr 13 (exc h 13),
       register_isr 14 (exc h 14),
       register_isr 15 (exc h 15),
       register_isr 16 (exc h 16),
       register_isr 17 (exc h 17),
       register_isr 18 (exc h 18),
       register_isr 19 (exc h 19),
       register_isr 20 (exc h 20),
       register_isr 30 (exc h 30),
       register_isr 32 (irq_pit h),
       register_isr 33 (irq_kb h),
       register_loop 34 40 (irq_default_master h),
       register_loop 40 48 (irq_default_slave h),
       ok idt_load,
       ok sti]"

subsection \<open>Reading the history\<close>

text \<open>The effects performed between two states of one run.\<close>

definition emitted :: "kstate \<Rightarrow> kstate \<Rightarrow> event list" where
  "emitted s s' = drop (length (trace s)) (trace s')"

fun is_idt_write :: "event \<Rightarrow> bool" where
  "is_idt_write (IdtWrite i e) = True"
| "is_idt_write _ = False"

fun is_port_write :: "event \<Rightarrow> bool" where
  "is_port_write (PortWrite p v) = True"
| "is_port_write _ = False"

fun is_lidt :: "event \<Rightarrow> bool" where
  "is_lidt (Lidt d) = True"
| "is_lidt _ = False"

fun is_sti :: "event \<Rightarrow> bool" where
  "is_sti Sti = True"
| "is_sti _ = False"

text \<open>
  \<open>all_before P Q tr\<close>: in \<open>tr\<close>, every event of kind \<open>P\<close> comes before every event
  of kind \<open>Q\<close> (once a \<open>Q\<close> has happened, no \<open>P\<close> follows).
\<close>

fun all_before :: "(event \<Rightarrow> bool) \<Rightarrow> (event \<Rightarrow> bool) \<Rightarrow> event list \<Rightarrow> bool" where
  "all_before P Q [] = True"
| "all_before P Q (e # es) = ((if Q e then list_all (\<lambda>x. \<not> P x) es else True) \<and> all_before P Q es)"

subsection \<open>The two 8259A controllers behind the ports\<close>

text \<open>
  What the port writes mean to the hardware, as the comments of idt.c and idt.h and the
  pages they cite describe it. A command-port byte with the \<open>ICW1_INIT\<close> bit starts the
  initialization sequence and clears the mask; the data port then takes ICW2 (the vector
  number of line 0, low three bits ignored), ICW3 (cascade wiring, skipped in single mode)
  and ICW4 (mode, only if \<open>ICW1_ICW4\<close> was set); outside the sequence a data-port byte is
  the interrupt mask, one bit per line, 1 = masked.
\<close>

record pic =
  icw_next :: nat
  icw1 :: "8 word"
  vector_base :: "8 word"
  cascade :: "8 word"
  mode :: "8 word"
  imr :: "8 word"

definition pic_cmd :: "8 word \<Rightarrow> pic \<Rightarrow> pic" where
  "pic_cmd v p =
     (if v AND ucast ICW1_INIT \<noteq> 0 then p\<lparr>icw_next := 2, icw1 := v, imr := 0\<rparr> else p)"

definition pic_data :: "8 word \<Rightarrow> pic \<Rightarrow> pic" where
  "pic_data v p =
     (if icw_next p = 2 then
        p\<lparr>vector_base := v AND 0xF8,
          icw_next := (if icw1 p AND ucast ICW1_SINGLE = 0 then 3
                       else if icw1 p AND ucast ICW1_ICW4 \<noteq> 0 then 4 else 0)\<rparr>
      else if icw_next p = 3 then
        p\<lparr>cascade := v, icw_next := (if icw1 p AND ucast ICW1_ICW4 \<noteq> 0 then 4 else 0)\<rparr>
      else if icw_next p = 4 then p\<lparr>mode := v, icw_next := 0\<rparr>
      else p\<lparr>imr := v\<rparr>)"

record pics =
  master :: pic
  slave :: pic

fun device_step :: "event \<Rightarrow> pics \<Rightarrow> pics" where
  "device_step (PortWrite port v) d =
     (if port = ucast PIC_MASTER_CMD then d\<lparr>master := pic_cmd v (master d)\<rparr>
      else if port = ucast PIC_MASTER_DATA then d\<lparr>master := pic_data v (master d)\<rparr>
      else if port = ucast PIC_SLAVE_CMD then d\<lparr>slave := pic_cmd v (slave d)\<rparr>
      else if port = ucast PIC_SLAVE_DATA then d\<lparr>slave := pic_data v (slave d)\<rparr>
      else d)"
| "device_step _ d = d"

definition devices_after :: "event list \<Rightarrow> pics \<Rightarrow> pics" where
  "devices_after tr d = fold device_step tr d"

text \<open>The vector numbers a controller raises for its eight lines, line 0 first.\<close>

definition pic_vectors :: "pic \<Rightarrow> nat list" where
  "pic_vectors p = map (\<lambda>line. unat (vector_base p) + line) [0..<8]"

text \<open>The lines a controller does not deliver.\<close>

definition masked_lines :: "pic \<Rightarrow> nat list" where
  "masked_lines p = filter (\<lambda>line. bit (imr p) line) [0..<8]"

text \<open>Link-time addresses for concrete runs.\<close>

definition demo_symbols :: symbols where
  "demo_symbols =
     \<lparr>exc = (\<lambda>n. 0x00101000 + 0x10 * of_nat n),
      irq_pit = 0x00102000, irq_kb = 0x00102010,
      irq_default_master = 0x00102020, irq_default_slave = 0x00102030,
      idt_addr = 0x00108000\<rparr>"

section \<open>Task list dump (kernel/multitask.c)\<close>

text \<open>
  kernel/multitask.h is not among the sources; \<open>Ctx\<close> is given the fields that
  \<open>dump_task_list\<close> reads, typed as its format string prints them (\<open>%s\<close>, \<open>%p\<close>,
  \<open>%lX\<close>, \<open>%ld\<close>). Pointers are 32-bit addresses. The field \<open>next\<close> is called
  \<open>next_ctx\<close> here.
\<close>

type_synonym ptr = "32 word"

record Ctx =
  name :: string
  prev :: ptr
  next_ctx :: ptr
  stack :: "32 word"
  esp :: "32 word"
  cr3 :: "32 word"
  state :: "32 word"

text \<open>The contexts that exist, by address. Reading a context through any other pointer
  (null, dangling) has no defined behaviour in C; the model stops with \<open>Fault\<close>.\<close>

type_synonym memory = "ptr \<rightharpoonup> Ctx"

datatype fault = Fault

text \<open>Console output, one element per line: the line of \<open>puts\<close>, or the arguments of
  one \<open>printf\<close> of a context, in the order of the call.\<close>

datatype out_line =
  Text string
| TaskLine int string ptr ptr "32 word" "32 word" "32 word" "32 word"

definition print_ctx :: "int \<Rightarrow> Ctx \<Rightarrow> out_line" where
  "print_ctx i c = TaskLine i (name c) (prev c) (next_ctx c) (stack c) (esp c) (cr3 c) (state c)"

text \<open>
  The \<open>for\<close> loop of \<open>dump_task_list\<close>: the test reads \<open>cur_ctx->next\<close>, the body
  prints \<open>cur_ctx\<close>, the step moves to \<open>cur_ctx->next\<close> and increments \<open>i\<close>. On a list
  whose \<open>next\<close> chain never reaches \<open>first_ctx\<close> again the loop does not return:
  the value is \<open>None\<close>.
\<close>

partial_function (option) dump_loop ::
  "memory \<Rightarrow> ptr \<Rightarrow> ptr \<Rightarrow> int \<Rightarrow> out_line list \<Rightarrow> (fault + out_line list) option" where
  "dump_loop mem first_ctx cur_ctx i out =
     (case mem cur_ctx of
        None \<Rightarrow> Some (Inl Fault)
      | Some c \<Rightarrow>
          if next_ctx c \<noteq> first_ctx
          then dump_loop mem first_ctx (next_ctx c) (i + 1) (out @ [print_ctx i c])
          else Some (Inr out))"

definition dump_task_list :: "memory \<Rightarrow> ptr \<Rightarrow> (fault + out_line list) option" where
  "dump_task_list mem mt_current_task =
     (let out = [Text ''Dumping task list:''];
          i = 0;
          first_ctx = mt_current_task
      in case mem first_ctx of
           None \<Rightarrow> Some (Inl Fault)
         | Some c \<Rightarrow> dump_loop mem first_ctx mt_current_task (i + 1) (out @ [print_ctx i c]))"

text \<open>A circular list of two tasks, the current one at \<open>0x200000\<close>.\<close>

definition task_idle :: Ctx where
  "task_idle =
     \<lparr>name = ''idle'', prev = 0x201000, next_ctx = 0x201000,
      stack = 0x300000, esp = 0x300FF0, cr3 = 0x1000, state = 0\<rparr>"

definition task_shell :: Ctx where
  "task_shell =
     \<lparr>name = ''shell'', prev = 0x200000, next_ctx = 0x200000,
      stack = 0x310000, esp = 0x310FF0, cr3 = 0x1000, state = 0\<rparr>"

definition two_tasks :: memory where
  "two_tasks = [0x200000 \<mapsto> task_idle, 0x201000 \<mapsto> task_shell]"

text \<open>
  \<open>ring mem ps\<close>: the addresses \<open>ps\<close> are distinct live contexts and the \<open>next\<close>
  field of each is the address after it, the last one pointing back to the first.
\<close>

definition ring :: "memory \<Rightarrow> ptr list \<Rightarrow> bool" where
  "ring mem ps =
     (ps \<noteq> [] \<and> distinct ps \<and>
      list_all (\<lambda>k. case mem (ps ! k) of
                       None \<Rightarrow> False
                     | Some c \<Rightarrow> next_ctx c = ps ! ((k + 1) mod length ps))
               [0..<length ps])"

section \<open>Notions used in the statements\<close>

text \<open>The descriptor \<open>register_isr\<close> builds for a handler address (its compound literal).\<close>

definition isr_gate :: "32 word \<Rightarrow> idt_entry" where
  "isr_gate func =
     \<lparr>offset_l = ucast (func AND 0xFFFF), selector = 0x8, zero_byte = 0,
      type_byte = ucast (P_BIT OR DPL_NONE OR IDT_GATE_32BIT_INT),
      offset_h = ucast (drop_bit 16 func AND 0xFFFF)\<rparr>"

text \<open>The address a descriptor sends the CPU to: \<open>offset_h\<close> is bits 16..31 of the
  offset and \<open>offset_l\<close> bits 0..15 (kernel/idt.h).\<close>

definition entry_handler :: "idt_entry \<Rightarrow> 32 word" where
  "entry_handler e = push_bit 16 (ucast (offset_h e)) OR ucast (offset_l e)"

text \<open>The calls of \<open>register_isr\<close> that \<open>idt_init\<close> makes, in order, as (vector, handler).\<close>

definition vector_plan :: "symbols \<Rightarrow> (nat \<times> 32 word) list" where
  "vector_plan h =
     map (\<lambda>v. (v, exc h v)) ([0..<9] @ [10..<21] @ [30])
     @ [(32, irq_pit h), (33, irq_kb h)]
     @ map (\<lambda>v. (v, irq_default_master h)) [34..<40]
     @ map (\<lambda>v. (v, irq_default_slave h)) [40..<48]"

text \<open>The port writes of \<open>pic_remap\<close>, in order, with the constants evaluated.\<close>

definition remap_writes :: "event list" where
  "remap_writes =
     [PortWrite 0x20 0x11, PortWrite 0xA0 0x11, PortWrite 0x21 32, PortWrite 0xA1 40,
      PortWrite 0x21 4, PortWrite 0xA1 2, PortWrite 0x21 1, PortWrite 0xA1 1,
      PortWrite 0x21 0, PortWrite 0xA1 0]"

definition idt_final_descriptor :: "symbols \<Rightarrow> idt_descriptor" where
  "idt_final_descriptor h = \<lparr>limit = 2047, base = idt_addr h\<rparr>"

section \<open>Properties of the descriptor table code\<close>

subsection \<open>What register\_isr stores\<close>

lemma register_isr_valid:
  "unat idx < 256 \<Longrightarrow>
   register_isr idx func s =
     Inr (s\<lparr>idt := (idt s)[unat idx := isr_gate func],
            trace := trace s @ [IdtWrite idx (isr_gate func)]\<rparr>)"
  by (simp add: register_isr_def IDT_SZ_def isr_gate_def Let_def)

lemma and_ffff: "(w :: 32 word) AND 0xFFFF = take_bit 16 w"
proof -
  have "(0xFFFF :: 32 word) = mask 16" by (simp add: mask_eq_exp_minus_1)
  then show ?thesis by (simp add: take_bit_eq_mask)
qed

lemma isr_gate_offset_nat:
  "unat (offset_h (isr_gate func)) * 2 ^ 16 + unat (offset_l (isr_gate func)) = unat func"
proof -
  have "unat (ucast (func AND 0xFFFF) :: 16 word) = take_bit 16 (unat func)"
    by (simp add: and_ffff unsigned_ucast_eq unsigned_take_bit_eq)
  then have lo: "unat (offset_l (isr_gate func)) = unat func mod 2 ^ 16"
    by (simp only: take_bit_eq_mod isr_gate_def idt_entry.simps)
  have "unat func < 2 ^ 32" using unsigned_less [of func, where 'a = nat] by simp
  then have small: "unat func div 2 ^ 16 < 2 ^ 16" by (simp add: less_mult_imp_div_less)
  have "unat (ucast (drop_bit 16 func AND 0xFFFF) :: 16 word)
          = take_bit 16 (drop_bit 16 (unat func))"
    by (simp add: and_ffff unsigned_ucast_eq unsigned_take_bit_eq unat_drop_bit_eq)
  then have hi: "unat (offset_h (isr_gate func)) = unat func div 2 ^ 16"
    using small by (simp only: take_bit_eq_mod drop_bit_eq_div mod_less isr_gate_def idt_entry.simps)
  show ?thesis unfolding lo hi by simp
qed

lemma isr_gate_handler: "entry_handler (isr_gate func) = func"
  unfolding entry_handler_def isr_gate_def and_ffff
  by (rule bit_word_eqI) (auto simp: bit_simps)

lemma isr_gate_fixed:
  "selector (isr_gate func) = 0x8" "type_byte (isr_gate func) = 0x8E"
  "zero_byte (isr_gate func) = 0"
  by (simp_all add: isr_gate_def P_BIT_def DPL_NONE_def IDT_GATE_32BIT_INT_def)

text \<open>
  C3. For every index below 256 and every 32-bit handler address, after
  \<open>register_isr\<close> the stored descriptor satisfies
  \<open>offset_h * 2^16 + offset_l = addr\<close>: the two 16-bit halves recombine to the address.
\<close>

theorem register_isr_offset_roundtrip:
  assumes "unat idx < IDT_SZ" and "length (idt s) = IDT_SZ"
  shows "\<exists>s'. register_isr idx func s = Inr s' \<and>
           unat (offset_h (idt s' ! unat idx)) * 2 ^ 16 + unat (offset_l (idt s' ! unat idx))
             = unat func"
  using assms isr_gate_offset_nat [of func] by (simp add: register_isr_valid IDT_SZ_def)

theorem register_isr_offset_roundtrip_witness:
  "unat (33 :: 16 word) < IDT_SZ \<and> length (idt boot_state) = IDT_SZ \<and>
   (\<exists>s'. register_isr 33 0xC0102A5F boot_state = Inr s' \<and>
      unat (offset_h (idt s' ! unat (33 :: 16 word))) * 2 ^ 16
        + unat (offset_l (idt s' ! unat (33 :: 16 word))) = unat (0xC0102A5F :: 32 word))"
  using register_isr_offset_roundtrip [of 33 boot_state "0xC0102A5F"]
  by (simp add: IDT_SZ_def boot_state_def)

text \<open>
  C8. For every index below 256, after \<open>register_isr\<close> the stored descriptor's
  other fields hold the fixed kernel interrupt-gate values: selector \<open>0x8\<close>, attribute
  byte \<open>0x8E\<close> (present bit 7 set, privilege bits 5-6 zero, gate kind in bits 0-4 the
  32-bit interrupt gate), reserved byte zero.
\<close>

theorem register_isr_gate_fields:
  assumes "unat idx < IDT_SZ" and "length (idt s) = IDT_SZ"
  shows "\<exists>s'. register_isr idx func s = Inr s' \<and>
           selector (idt s' ! unat idx) = 0x8 \<and>
           type_byte (idt s' ! unat idx) = 0x8E \<and>
           bit (type_byte (idt s' ! unat idx)) 7 \<and>
           drop_bit 5 (type_byte (idt s' ! unat idx)) AND 3 = 0 \<and>
           type_byte (idt s' ! unat idx) AND 0x1F = ucast IDT_GATE_32BIT_INT \<and>
           zero_byte (idt s' ! unat idx) = 0"
  using assms
  by (simp add: register_isr_valid IDT_SZ_def isr_gate_fixed IDT_GATE_32BIT_INT_def)

theorem register_isr_gate_fields_witness:
  "unat (255 :: 16 word) < IDT_SZ \<and> length (idt boot_state) = IDT_SZ \<and>
   (\<exists>s'. register_isr 255 0xC0102A5F boot_state = Inr s' \<and>
      selector (idt s' ! unat (255 :: 16 word)) = 0x8 \<and>
      type_byte (idt s' ! unat (255 :: 16 word)) = 0x8E \<and>
      zero_byte (idt s' ! unat (255 :: 16 word)) = 0)"
proof -
  have valid: "unat (255 :: 16 word) < IDT_SZ" and len: "length (idt boot_state) = IDT_SZ"
    by (simp_all add: IDT_SZ_def boot_state_def)
  from register_isr_gate_fields [OF valid len, of "0xC0102A5F"] valid len
  show ?thesis by blast
qed

text \<open>
  C9. For every index below 256, \<open>register_isr\<close> changes only the table entry at that
  index: every other entry, the table's length, the descriptor, the CPU's table register
  and the interrupt flag are as before, and the only effect performed is the one store
  to that entry.
\<close>

theorem register_isr_frame:
  assumes "unat idx < IDT_SZ"
  shows "\<exists>s' e. register_isr idx func s = Inr s' \<and>
           s' = s\<lparr>idt := (idt s)[unat idx := e], trace := trace s @ [IdtWrite idx e]\<rparr> \<and>
           (\<forall>j. j \<noteq> unat idx \<longrightarrow> idt s' ! j = idt s ! j) \<and>
           length (idt s') = length (idt s) \<and>
           descriptor s' = descriptor s \<and> idtr s' = idtr s \<and> iflag s' = iflag s \<and>
           emitted s s' = [IdtWrite idx e]"
  using assms by (simp add: register_isr_valid IDT_SZ_def emitted_def)

theorem register_isr_frame_witness:
  "unat (33 :: 16 word) < IDT_SZ \<and>
   (\<exists>s'. register_isr 33 0xC0102A5F boot_state = Inr s' \<and>
      (32 :: nat) \<noteq> unat (33 :: 16 word) \<and> idt s' ! 32 = idt boot_state ! 32 \<and>
      descriptor s' = descriptor boot_state \<and> idtr s' = idtr boot_state \<and>
      iflag s' = iflag boot_state)"
proof -
  have valid: "unat (33 :: 16 word) < IDT_SZ" by (simp add: IDT_SZ_def)
  from register_isr_frame [OF valid, of "0xC0102A5F" boot_state]
  obtain s' where run: "register_isr 33 0xC0102A5F boot_state = Inr s'"
    and others: "\<forall>j. j \<noteq> unat (33 :: 16 word) \<longrightarrow> idt s' ! j = idt boot_state ! j"
    and rest: "descriptor s' = descriptor boot_state" "idtr s' = idtr boot_state"
      "iflag s' = iflag boot_state"
    by blast
  have "(32 :: nat) \<noteq> unat (33 :: 16 word)" by simp
  with others have "idt s' ! 32 = idt boot_state ! 32" by blast
  with valid run rest show ?thesis by simp
qed

text \<open>
  C5. For every index of 256 or more, \<open>register_isr\<close> ends in the panic and does not
  return; the state at the halt is the state before the call, so no table entry was
  written.
\<close>

theorem register_isr_out_of_range:
  assumes "IDT_SZ \<le> unat idx"
  shows "register_isr idx func s = Inl (Panic ''Idx out of bounds when registering ISR.'' s)"
  using assms by (simp add: register_isr_def panic_line_def)

theorem register_isr_out_of_range_witness:
  "IDT_SZ \<le> unat (256 :: 16 word) \<and>
   register_isr 256 0xC0102A5F boot_state
     = Inl (Panic ''Idx out of bounds when registering ISR.'' boot_state)"
  using register_isr_out_of_range [of 256 "0xC0102A5F" boot_state]
  by (simp add: IDT_SZ_def)

subsection \<open>What idt\_init does\<close>

lemma pic_remap_eq: "pic_remap s = s\<lparr>trace := trace s @ remap_writes\<rparr>"
  by (simp add: pic_remap_def io_outb_def remap_writes_def Let_def
      PIC_MASTER_CMD_def PIC_MASTER_DATA_def PIC_SLAVE_CMD_def PIC_SLAVE_DATA_def
      ICW1_INIT_def ICW1_ICW4_def ICW4_8086_def)

lemma upt_plan:
  "[0..<9] = [0,1,2,3,4,5,6,7,8::nat]"
  "[10..<21] = [10,11,12,13,14,15,16,17,18,19,20::nat]"
  "[34..<40] = [34,35,36,37,38,39::nat]"
  "[40..<48] = [40,41,42,43,44,45,46,47::nat]"
  by (simp_all add: upt_rec)

lemma register_loop_master:
  "register_loop 34 40 f s =
     Inr (s\<lparr>idt := fold (\<lambda>v t. t[v := isr_gate f]) [34..<40] (idt s),
            trace := trace s @ map (\<lambda>v. IdtWrite (of_nat v) (isr_gate f)) [34..<40]\<rparr>)"
  by (simp add: register_loop.simps register_isr_valid upt_plan)

lemma register_loop_slave:
  "register_loop 40 48 f s =
     Inr (s\<lparr>idt := fold (\<lambda>v t. t[v := isr_gate f]) [40..<48] (idt s),
            trace := trace s @ map (\<lambda>v. IdtWrite (of_nat v) (isr_gate f)) [40..<48]\<rparr>)"
  by (simp add: register_loop.simps register_isr_valid upt_plan)

lemma descriptor_filled:
  "(d :: idt_descriptor)\<lparr>limit := a, base := b\<rparr> = \<lparr>limit = a, base = b\<rparr>"
  by (cases d) simp

lemma idt_init_eq:
  "idt_init h s =
     Inr (s\<lparr>idt := fold (\<lambda>(v, f) t. t[v := isr_gate f]) (vector_plan h) (idt s),
            descriptor := idt_final_descriptor h,
            idtr := Some (idt_final_descriptor h),
            iflag := True,
            trace := trace s @ remap_writes
                     @ map (\<lambda>(v, f). IdtWrite (of_nat v) (isr_gate f)) (vector_plan h)
                     @ [Lidt (idt_final_descriptor h), Sti]\<rparr>)"
  by (simp add: idt_init_def ok_def pic_remap_eq register_isr_valid register_loop_master
      register_loop_slave vector_plan_def upt_plan idt_load_def sti_def
      idt_final_descriptor_def IDT_SZ_def sizeof_idt_entry_def descriptor_filled)

lemma idt_init_returns: "\<exists>s'. idt_init h s = Inr s'"
  by (simp add: idt_init_eq)

lemma idt_init_table:
  "idt_init h s = Inr s' \<Longrightarrow>
   idt s' = fold (\<lambda>(v, f) t. t[v := isr_gate f]) (vector_plan h) (idt s)"
  by (simp add: idt_init_eq) auto

lemma idt_init_emitted:
  "idt_init h s = Inr s' \<Longrightarrow>
   emitted s s' = remap_writes
      @ map (\<lambda>(v, f). IdtWrite (of_nat v) (isr_gate f)) (vector_plan h)
      @ [Lidt (idt_final_descriptor h), Sti]"
  by (auto simp add: idt_init_eq emitted_def)

lemma fold_update_other:
  "v \<notin> fst ` set as \<Longrightarrow> fold (\<lambda>(v, f) t. t[v := g f]) as t ! v = t ! v"
  by (induction as arbitrary: t) (auto split: prod.splits)

lemma fold_update_hit:
  "distinct (map fst as) \<Longrightarrow> (v, f) \<in> set as \<Longrightarrow> v < length t \<Longrightarrow>
   fold (\<lambda>(v, f) t. t[v := g f]) as t ! v = g f"
proof (induction as arbitrary: t)
  case Nil
  then show ?case by simp
next
  case (Cons a as)
  show ?case
  proof (cases "a = (v, f)")
    case True
    with Cons.prems have "v \<notin> fst ` set as" by auto
    with True Cons.prems show ?thesis by (simp add: fold_update_other)
  next
    case False
    with Cons.prems have "(v, f) \<in> set as" by simp
    with Cons show ?thesis by (auto split: prod.splits)
  qed
qed

lemma plan_vectors:
  "map fst (vector_plan h) =
     [0,1,2,3,4,5,6,7,8,10,11,12,13,14,15,16,17,18,19,20,30,32,33,
      34,35,36,37,38,39,40,41,42,43,44,45,46,47]"
  by (simp add: vector_plan_def upt_plan)

lemma plan_distinct: "distinct (map fst (vector_plan h))"
  unfolding plan_vectors by simp

text \<open>The vectors of the table that no call of \<open>register_isr\<close> names.\<close>

lemma unassigned_vectors:
  "{v. v < IDT_SZ \<and> v \<notin> set (map fst (vector_plan h))}
     = {9} \<union> {21..29} \<union> {31} \<union> {48..255}"
  unfolding plan_vectors IDT_SZ_def by (auto simp del: One_nat_def; presburger)

lemma idt_init_assigned:
  assumes run: "idt_init h s = Inr s'" and len: "length (idt s) = IDT_SZ"
    and plan: "(v, f) \<in> set (vector_plan h)"
  shows "idt s' ! v = isr_gate f"
proof -
  have "v \<in> set (map fst (vector_plan h))" using plan by force
  then have "v < length (idt s)" unfolding plan_vectors len IDT_SZ_def by auto
  then show ?thesis
    unfolding idt_init_table [OF run] using plan plan_distinct
    by (rule_tac fold_update_hit)
qed

text \<open>
  C4. \<open>idt_init\<close> assigns the vectors as the published table says: vectors 0-8, 10-20
  and 30 lead to the exception handler of their own number, vector 32 to the timer
  handler, vector 33 to the keyboard handler, vectors 34-39 to the master controller's
  default handler and vectors 40-47 to the slave controller's default handler, each
  through a present descriptor.
\<close>

theorem idt_init_vector_table:
  assumes len: "length (idt s) = IDT_SZ"
  shows "\<exists>s'. idt_init h s = Inr s' \<and>
     (\<forall>v \<in> set ([0..<9] @ [10..<21] @ [30]).
         entry_handler (idt s' ! v) = exc h v \<and> bit (type_byte (idt s' ! v)) 7) \<and>
     entry_handler (idt s' ! 32) = irq_pit h \<and> bit (type_byte (idt s' ! 32)) 7 \<and>
     entry_handler (idt s' ! 33) = irq_kb h \<and> bit (type_byte (idt s' ! 33)) 7 \<and>
     (\<forall>v \<in> {34..39}.
         entry_handler (idt s' ! v) = irq_default_master h \<and> bit (type_byte (idt s' ! v)) 7) \<and>
     (\<forall>v \<in> {40..47}.
         entry_handler (idt s' ! v) = irq_default_slave h \<and> bit (type_byte (idt s' ! v)) 7)"
proof -
  obtain s' where run: "idt_init h s = Inr s'"
    using idt_init_returns by blast
  note hit = idt_init_assigned [OF run len]
  have exc: "idt s' ! v = isr_gate (exc h v)" if "v \<in> set ([0..<9] @ [10..<21] @ [30])" for v
    using that by (intro hit) (auto simp add: vector_plan_def image_iff)
  have pit: "idt s' ! 32 = isr_gate (irq_pit h)" and kb: "idt s' ! 33 = isr_gate (irq_kb h)"
    by (intro hit; simp add: vector_plan_def)+
  have mas: "idt s' ! v = isr_gate (irq_default_master h)" if "v \<in> {34..39}" for v
    using that by (intro hit) (auto simp add: vector_plan_def image_iff)
  have sla: "idt s' ! v = isr_gate (irq_default_slave h)" if "v \<in> {40..47}" for v
    using that by (intro hit) (auto simp add: vector_plan_def image_iff)
  have present: "bit (type_byte (isr_gate f)) 7" for f
    by (simp add: isr_gate_fixed)
  show ?thesis
    using run exc pit kb mas sla by (simp add: isr_gate_handler present)
qed

theorem idt_init_vector_table_witness:
  "length (idt boot_state) = IDT_SZ \<and>
   (\<exists>s'. idt_init demo_symbols boot_state = Inr s' \<and>
      (14 :: nat) \<in> set ([0..<9] @ [10..<21] @ [30]) \<and>
      entry_handler (idt s' ! 14) = 0x001010E0 \<and>
      entry_handler (idt s' ! 32) = 0x00102000 \<and>
      entry_handler (idt s' ! 33) = 0x00102010 \<and>
      (36 :: nat) \<in> {34..39} \<and>
      entry_handler (idt s' ! 36) = 0x00102020 \<and>
      (47 :: nat) \<in> {40..47} \<and>
      entry_handler (idt s' ! 47) = 0x00102030)"
proof -
  have len: "length (idt boot_state) = IDT_SZ"
    by (simp add: boot_state_def)
  have m14: "(14 :: nat) \<in> set ([0..<9] @ [10..<21] @ [30])"
    and m36: "(36 :: nat) \<in> {34..39}" and m47: "(47 :: nat) \<in> {40..47}"
    by simp_all
  from idt_init_vector_table [OF len, of demo_symbols]
  obtain s' where run: "idt_init demo_symbols boot_state = Inr s'"
    and e: "\<forall>v \<in> set ([0..<9] @ [10..<21] @ [30]).
              entry_handler (idt s' ! v) = exc demo_symbols v \<and> bit (type_byte (idt s' ! v)) 7"
    and p: "entry_handler (idt s' ! 32) = irq_pit demo_symbols"
    and k: "entry_handler (idt s' ! 33) = irq_kb demo_symbols"
    and m: "\<forall>v \<in> {34..39}. entry_handler (idt s' ! v) = irq_default_master demo_symbols
              \<and> bit (type_byte (idt s' ! v)) 7"
    and sl: "\<forall>v \<in> {40..47}. entry_handler (idt s' ! v) = irq_default_slave demo_symbols
              \<and> bit (type_byte (idt s' ! v)) 7"
    by blast
  from e m14 have "entry_handler (idt s' ! 14) = exc demo_symbols 14" by blast
  moreover from m m36 have "entry_handler (idt s' ! 36) = irq_default_master demo_symbols"
    by blast
  moreover from sl m47 have "entry_handler (idt s' ! 47) = irq_default_slave demo_symbols"
    by blast
  ultimately show ?thesis
    using len run p k m14 m36 m47 by (simp add: demo_symbols_def)
qed

text \<open>
  C1, as stated, fails: after \<open>idt_init\<close> on the zero-initialized table, vector 9,
  which no call assigns, still holds the all-zero record, present bit clear.
\<close>

theorem idt_init_leaves_zero_counterexample:
  "\<not> isl (idt_init demo_symbols boot_state) \<and>
   idt (projr (idt_init demo_symbols boot_state)) ! 9 = idt_entry_zero \<and>
   \<not> bit (type_byte (idt (projr (idt_init demo_symbols boot_state)) ! 9)) 7"
  by (simp add: idt_init_eq boot_state_def vector_plan_def upt_plan IDT_SZ_def
      idt_entry_zero_def)

text \<open>
  C1, amended. After \<open>idt_init\<close> on the zero-initialized table, every entry whose vector
  number no call assigns (9, 21-29, 31 and 48-255) is still the all-zero record it was
  initialized to: present bit clear, handler address 0. No default handler is installed
  for them.
\<close>

theorem idt_init_unassigned_untouched:
  assumes "v \<in> {9} \<union> {21..29} \<union> {31} \<union> {48..255}"
  shows "\<exists>s'. idt_init h boot_state = Inr s' \<and>
           idt s' ! v = idt_entry_zero \<and>
           \<not> bit (type_byte (idt s' ! v)) 7 \<and>
           entry_handler (idt s' ! v) = 0"
proof -
  obtain s' where run: "idt_init h boot_state = Inr s'"
    using idt_init_returns by blast
  have "v \<notin> set (map fst (vector_plan h))"
    using assms unfolding plan_vectors by auto
  then have "idt s' ! v = idt boot_state ! v"
    unfolding idt_init_table [OF run] by (simp add: fold_update_other)
  moreover have "v < 256" using assms by auto
  ultimately have "idt s' ! v = idt_entry_zero"
    by (simp add: boot_state_def IDT_SZ_def)
  with run show ?thesis
    by (simp add: idt_entry_zero_def entry_handler_def)
qed

theorem idt_init_unassigned_untouched_witness:
  "(200 :: nat) \<in> {9} \<union> {21..29} \<union> {31} \<union> {48..255} \<and>
   (\<exists>s'. idt_init demo_symbols boot_state = Inr s' \<and>
      idt s' ! 200 = idt_entry_zero \<and>
      \<not> bit (type_byte (idt s' ! 200)) 7 \<and>
      entry_handler (idt s' ! 200) = 0)"
proof -
  have m: "(200 :: nat) \<in> {9} \<union> {21..29} \<union> {31} \<union> {48..255}" by simp
  from idt_init_unassigned_untouched [OF m, of demo_symbols] m
  show ?thesis by blast
qed

subsection \<open>The order of the steps of idt\_init\<close>

text \<open>
  C7, as stated, fails: in a run of \<open>idt_init\<close> it is not the case that every store to
  the vector table comes before every port write of the controller remap.
\<close>

theorem idt_init_table_before_remap_counterexample:
  "\<not> isl (idt_init demo_symbols boot_state) \<and>
   \<not> all_before is_idt_write is_port_write
        (emitted boot_state (projr (idt_init demo_symbols boot_state)))"
  by (simp add: idt_init_eq emitted_def boot_state_def remap_writes_def vector_plan_def
      upt_plan)

text \<open>
  C7, amended. \<open>idt_init\<close> returns, and its effects come in this order: first the ten
  port writes that remap the interrupt controllers, then the 37 stores to the vector
  table, then the one \<open>lidt\<close> of the descriptor (limit 2047, base the table's address),
  issued after the table is fully built, and last the one \<open>sti\<close>, after the load.
\<close>

theorem idt_init_order:
  "\<exists>s'. idt_init h s = Inr s' \<and>
     all_before is_port_write is_idt_write (emitted s s') \<and>
     all_before is_idt_write is_lidt (emitted s s') \<and>
     all_before is_lidt is_sti (emitted s s') \<and>
     length (filter is_port_write (emitted s s')) = 10 \<and>
     length (filter is_idt_write (emitted s s')) = 37 \<and>
     filter is_lidt (emitted s s') = [Lidt \<lparr>limit = 2047, base = idt_addr h\<rparr>] \<and>
     filter is_sti (emitted s s') = [Sti] \<and>
     last (emitted s s') = Sti \<and>
     idtr s' = Some \<lparr>limit = 2047, base = idt_addr h\<rparr> \<and> iflag s'"
proof -
  obtain s' where run: "idt_init h s = Inr s'"
    using idt_init_returns by blast
  have regs: "idtr s' = Some \<lparr>limit = 2047, base = idt_addr h\<rparr>" "iflag s'"
    using run by (auto simp add: idt_init_eq idt_final_descriptor_def)
  note em = idt_init_emitted [OF run]
  have "all_before is_port_write is_idt_write (emitted s s')"
    unfolding em by (simp add: remap_writes_def vector_plan_def upt_plan)
  moreover have "all_before is_idt_write is_lidt (emitted s s')"
    unfolding em by (simp add: remap_writes_def vector_plan_def upt_plan)
  moreover have "all_before is_lidt is_sti (emitted s s')"
    unfolding em by (simp add: remap_writes_def vector_plan_def upt_plan)
  moreover have "length (filter is_port_write (emitted s s')) = 10"
    unfolding em by (simp add: remap_writes_def vector_plan_def upt_plan)
  moreover have "length (filter is_idt_write (emitted s s')) = 37"
    unfolding em by (simp add: remap_writes_def vector_plan_def upt_plan)
  moreover have "filter is_lidt (emitted s s') = [Lidt \<lparr>limit = 2047, base = idt_addr h\<rparr>]"
    unfolding em
    by (simp add: remap_writes_def vector_plan_def upt_plan idt_final_descriptor_def)
  moreover have "filter is_sti (emitted s s') = [Sti]"
    unfolding em by (simp add: remap_writes_def vector_plan_def upt_plan)
  moreover have "last (emitted s s') = Sti"
    unfolding em by simp
  ultimately show ?thesis using run regs by blast
qed

subsection \<open>The controller configuration\<close>

lemma pic_remap_emitted: "emitted s (pic_remap s) = remap_writes"
  by (simp add: pic_remap_eq emitted_def)

lemma devices_after_remap:
  "master (devices_after remap_writes d) =
     (master d)\<lparr>icw_next := 0, icw1 := 0x11, vector_base := 32, cascade := 4, mode := 1,
                imr := 0\<rparr>"
  "slave (devices_after remap_writes d) =
     (slave d)\<lparr>icw_next := 0, icw1 := 0x11, vector_base := 40, cascade := 2, mode := 1,
               imr := 0\<rparr>"
  by (simp_all add: devices_after_def remap_writes_def pic_cmd_def pic_data_def
      PIC_MASTER_CMD_def PIC_MASTER_DATA_def PIC_SLAVE_CMD_def PIC_SLAVE_DATA_def
      ICW1_INIT_def ICW1_ICW4_def ICW1_SINGLE_def)

lemma devices_after_handshake:
  "icw_next (master (devices_after (take 8 remap_writes) d)) = 0"
  "icw_next (slave (devices_after (take 8 remap_writes) d)) = 0"
  by (simp_all add: devices_after_def remap_writes_def pic_cmd_def pic_data_def
      PIC_MASTER_CMD_def PIC_MASTER_DATA_def PIC_SLAVE_CMD_def PIC_SLAVE_DATA_def
      ICW1_INIT_def ICW1_ICW4_def ICW1_SINGLE_def)

text \<open>
  C6. \<open>pic_remap\<close> writes, in this order: ICW1 with \<open>INIT | ICW4\<close> to the master
  and slave command ports, the vector bases 32 and 40 to the master and slave data ports,
  the cascade words 4 and 2, and the 8086-mode words. After the routine the master raises
  vectors 32-39 and the slave 40-47, none of them among the CPU exception vectors 0-31.
\<close>

theorem pic_remap_handshake:
  "take 8 (emitted s (pic_remap s)) =
     [PortWrite (ucast PIC_MASTER_CMD) (ucast (ICW1_INIT OR ICW1_ICW4)),
      PortWrite (ucast PIC_SLAVE_CMD) (ucast (ICW1_INIT OR ICW1_ICW4)),
      PortWrite (ucast PIC_MASTER_DATA) 32,
      PortWrite (ucast PIC_SLAVE_DATA) 40,
      PortWrite (ucast PIC_MASTER_DATA) 4,
      PortWrite (ucast PIC_SLAVE_DATA) 2,
      PortWrite (ucast PIC_MASTER_DATA) (ucast ICW4_8086),
      PortWrite (ucast PIC_SLAVE_DATA) (ucast ICW4_8086)] \<and>
   pic_vectors (master (devices_after (emitted s (pic_remap s)) d)) = [32..<40] \<and>
   pic_vectors (slave (devices_after (emitted s (pic_remap s)) d)) = [40..<48] \<and>
   set (pic_vectors (master (devices_after (emitted s (pic_remap s)) d))) \<inter> {0..31} = {} \<and>
   set (pic_vectors (slave (devices_after (emitted s (pic_remap s)) d))) \<inter> {0..31} = {} \<and>
   cascade (master (devices_after (emitted s (pic_remap s)) d)) = 4 \<and>
   cascade (slave (devices_after (emitted s (pic_remap s)) d)) = 2 \<and>
   mode (master (devices_after (emitted s (pic_remap s)) d)) = ucast ICW4_8086 \<and>
   mode (slave (devices_after (emitted s (pic_remap s)) d)) = ucast ICW4_8086"
proof -
  have "pic_vectors (master (devices_after remap_writes d)) = [32..<40]"
    and "pic_vectors (slave (devices_after remap_writes d)) = [40..<48]"
    by (simp_all add: devices_after_remap pic_vectors_def upt_rec)
  moreover have "set [32..<40] \<inter> {0..31} = ({} :: nat set)"
    and "set [40..<48] \<inter> {0..31} = ({} :: nat set)"
    by auto
  moreover have "take 8 remap_writes =
     [PortWrite (ucast PIC_MASTER_CMD) (ucast (ICW1_INIT OR ICW1_ICW4)),
      PortWrite (ucast PIC_SLAVE_CMD) (ucast (ICW1_INIT OR ICW1_ICW4)),
      PortWrite (ucast PIC_MASTER_DATA) 32,
      PortWrite (ucast PIC_SLAVE_DATA) 40,
      PortWrite (ucast PIC_MASTER_DATA) 4,
      PortWrite (ucast PIC_SLAVE_DATA) 2,
      PortWrite (ucast PIC_MASTER_DATA) (ucast ICW4_8086),
      PortWrite (ucast PIC_SLAVE_DATA) (ucast ICW4_8086)]"
    by (simp add: remap_writes_def
      PIC_MASTER_CMD_def PIC_MASTER_DATA_def PIC_SLAVE_CMD_def PIC_SLAVE_DATA_def
      ICW1_INIT_def ICW1_ICW4_def ICW4_8086_def)
  moreover have "ucast ICW4_8086 = (1 :: 8 word)"
    by (simp add: ICW4_8086_def)
  ultimately show ?thesis
    unfolding pic_remap_emitted by (simp add: devices_after_remap)
qed

text \<open>
  C10. \<open>pic_remap\<close> makes ten port writes; the last two, after the four-word
  handshake has taken both controllers out of their initialization sequence, store 0 to
  the master and slave data ports, that is, to the interrupt-mask registers: every line
  of both controllers is left unmasked.
\<close>

theorem pic_remap_unmasks:
  "length (emitted s (pic_remap s)) = 10 \<and>
   drop 8 (emitted s (pic_remap s)) =
     [PortWrite (ucast PIC_MASTER_DATA) 0, PortWrite (ucast PIC_SLAVE_DATA) 0] \<and>
   icw_next (master (devices_after (take 8 (emitted s (pic_remap s))) d)) = 0 \<and>
   icw_next (slave (devices_after (take 8 (emitted s (pic_remap s))) d)) = 0 \<and>
   imr (master (devices_after (emitted s (pic_remap s)) d)) = 0 \<and>
   imr (slave (devices_after (emitted s (pic_remap s)) d)) = 0 \<and>
   masked_lines (master (devices_after (emitted s (pic_remap s)) d)) = [] \<and>
   masked_lines (slave (devices_after (emitted s (pic_remap s)) d)) = []"
proof -
  have "length remap_writes = 10"
    and "drop 8 remap_writes =
      [PortWrite (ucast PIC_MASTER_DATA) 0, PortWrite (ucast PIC_SLAVE_DATA) 0]"
    by (simp_all add: remap_writes_def PIC_MASTER_DATA_def PIC_SLAVE_DATA_def)
  then show ?thesis
    unfolding pic_remap_emitted
    by (simp add: devices_after_remap devices_after_handshake masked_lines_def)
qed

section \<open>Properties of the task list dump\<close>

text \<open>
  On a circular list of \<open>N\<close> tasks whose current task is the first of \<open>ps\<close>, the
  loop started at position \<open>k\<close> prints the tasks at positions \<open>k\<close> to \<open>N - 2\<close> and
  returns: it stops in front of the task whose \<open>next\<close> is the current one.
\<close>

lemma ring_nth:
  assumes "ring mem ps" and "k < length ps"
  shows "\<exists>c. mem (ps ! k) = Some c \<and> next_ctx c = ps ! ((k + 1) mod length ps)"
proof -
  from assms have "case mem (ps ! k) of None \<Rightarrow> False
                   | Some c \<Rightarrow> next_ctx c = ps ! ((k + 1) mod length ps)"
    by (simp add: ring_def list_all_iff)
  then show ?thesis by (cases "mem (ps ! k)") simp_all
qed

lemma dump_loop_ring:
  assumes r: "ring mem ps"
  shows "k < length ps \<Longrightarrow>
         dump_loop mem (ps ! 0) (ps ! k) i out =
           Some (Inr (out @ map (\<lambda>j. print_ctx (i + int (j - k)) (the (mem (ps ! j))))
                                [k..<length ps - 1]))"
proof (induction "length ps - 1 - k" arbitrary: k i out)
  case 0
  then have k: "k = length ps - 1" by simp
  from ring_nth [OF r "0.prems"] obtain c
    where c: "mem (ps ! k) = Some c" "next_ctx c = ps ! ((k + 1) mod length ps)" by blast
  have "k + 1 = length ps" using k "0.prems" by linarith
  then have "(k + 1) mod length ps = 0" by simp
  with c have "next_ctx c = ps ! 0" by simp
  with c show ?case
    by (subst dump_loop.simps) (simp add: k)
next
  case (Suc n)
  then have k: "k + 1 < length ps" by simp
  from ring_nth [OF r Suc.prems] obtain c
    where c: "mem (ps ! k) = Some c" "next_ctx c = ps ! ((k + 1) mod length ps)" by blast
  have nx: "next_ctx c = ps ! (k + 1)" using c k by simp
  have d: "distinct ps" using r by (simp add: ring_def)
  have pos: "0 < length ps" using k by linarith
  from nth_eq_iff_index_eq [OF d k pos] have ne: "ps ! (k + 1) \<noteq> ps ! 0"
    by simp
  have n: "n = length ps - 1 - (k + 1)" using Suc.hyps by simp
  have upt: "[k..<length ps - 1] = k # [k + 1..<length ps - 1]"
    using k by (simp add: upt_rec)
  have shift: "map (\<lambda>j. print_ctx (i + 1 + int (j - (k + 1))) (the (mem (ps ! j))))
                 [k + 1..<length ps - 1]
             = map (\<lambda>j. print_ctx (i + int (j - k)) (the (mem (ps ! j))))
                 [k + 1..<length ps - 1]"
    by (rule map_cong) (auto simp: of_nat_diff)
  show ?case
  proof -
    have "dump_loop mem (ps ! 0) (ps ! k) i out
          = dump_loop mem (ps ! 0) (ps ! (k + 1)) (i + 1) (out @ [print_ctx i c])"
      using ne by (subst dump_loop.simps) (simp add: c(1) nx)
    also have "\<dots> = Some (Inr ((out @ [print_ctx i c])
          @ map (\<lambda>j. print_ctx (i + 1 + int (j - (k + 1))) (the (mem (ps ! j))))
              [k + 1..<length ps - 1]))"
      by (rule Suc.hyps(1) [OF n k])
    also have "\<dots> = Some (Inr (out @
          map (\<lambda>j. print_ctx (i + int (j - k)) (the (mem (ps ! j)))) [k..<length ps - 1]))"
      unfolding shift upt by (simp add: c(1))
    finally show ?thesis .
  qed
qed

lemma dump_task_list_ring:
  assumes r: "ring mem ps"
  shows "dump_task_list mem (ps ! 0) =
     Some (Inr (Text ''Dumping task list:'' # print_ctx 0 (the (mem (ps ! 0)))
                # map (\<lambda>j. print_ctx (1 + int j) (the (mem (ps ! j)))) [0..<length ps - 1]))"
proof -
  have ne: "0 < length ps" using r by (simp add: ring_def)
  from ring_nth [OF r ne] obtain c where c: "mem (ps ! 0) = Some c" by blast
  show ?thesis
    using dump_loop_ring [OF r ne] by (simp add: dump_task_list_def c)
qed

text \<open>The two-task list is such a ring.\<close>

lemma ring_two_tasks: "ring two_tasks [0x200000, 0x201000]"
  by (simp add: ring_def two_tasks_def task_idle_def task_shell_def upt_rec)

text \<open>
  C2. The claim asks for exactly one line per live task, the current task first. On the
  circular list of the two tasks \<open>idle\<close> (current) and \<open>shell\<close> the code prints,
  after the header, line 0 for \<open>idle\<close> and line 1 for \<open>idle\<close> again, and no line for
  \<open>shell\<close>: the loop starts again at the current task, which the statement before it
  has already printed, and stops before the last one.
\<close>

theorem dump_task_list_two_tasks:
  "dump_task_list two_tasks 0x200000 =
     Some (Inr [Text ''Dumping task list:'', print_ctx 0 task_idle, print_ctx 1 task_idle])"
proof -
  have idle: "two_tasks 0x200000 = Some task_idle"
    and shell: "two_tasks 0x201000 = Some task_shell"
    by (simp_all add: two_tasks_def)
  have n1: "next_ctx task_idle = 0x201000" and n2: "next_ctx task_shell = 0x200000"
    by (simp_all add: task_idle_def task_shell_def)
  have last_step: "dump_loop two_tasks 0x200000 0x201000 i out = Some (Inr out)" for i out
    by (subst dump_loop.simps) (simp add: shell n2)
  have first_step: "dump_loop two_tasks 0x200000 0x200000 i out
      = Some (Inr (out @ [print_ctx i task_idle]))" for i out
    by (subst dump_loop.simps) (simp add: idle n1 last_step)
  show ?thesis
    by (simp add: dump_task_list_def idle first_step)
qed

end
